theory Spec2Isabelle
  imports Main
begin

section \<open>Data model of the component surface (html-element.ts)\<close>

text \<open>
  JavaScript values that reach the accessors. Objects live in a heap and are named by
  a reference, so that identity (\<open>===\<close>) of two objects is equality of references.
  \<open>VProxy r\<close> is the reactive proxy of the heap object \<open>r\<close>: one proxy per target.
\<close>

type_synonym ref = nat
type_synonym vmid = nat

datatype val =
    VUndefined
  | VNull
  | VBool bool
  | VNum int
  | VStr string
  | VObj ref
  | VProxy ref

text \<open>
  Heap objects: a plain record (\<open>create(null)\<close>, an object literal), an array, or an
  instance of a class (\<open>new ClassList(vm)\<close>, \<open>new Root(vm)\<close>, a DOM node).
\<close>

datatype hobj =
    Record "string \<Rightarrow> val option"
  | Array "val list"
  | Instance string

text \<open>
  The template strings of the source, kept as constructors that carry the interpolated
  parts (the view-model by its identifier). First the lines a disabled global accessor
  pushes before joining them.
\<close>

datatype gline =
    LDisabled string vmid
  | LError string
  | LExperimental string string
  | LReadOnly
  | LInstead string
  | LUseGetAttribute string
  | LDeclareObserved string

datatype msg =
    MsgCtorRead vmid string
  | MsgSetOutsideCtor vmid string
  | MsgNonReactive vmid string val
  | MsgWiredFail vmid string
  | MsgStateFail vmid val
  | MsgGetAttributeArity vmid
  | MsgAttrIsPublicProp vmid string string
  | MsgAttrError string
  | MsgAttrExperimental string string
  | MsgQueryDuringCtor vmid
  | MsgQueryTemplate vmid
  | MsgTabIndexRendering int "vmid option"
  | MsgTabIndexCtor vmid
  | MsgGlobalDisabled "gline list"
  | MsgDestructureUndefined string

datatype log_entry =
    LogError msg
  | LogWarning msg
  | ConsoleError msg
  | ConsoleLog msg

datatype error =
    TypeError msg
  | ReferenceError msg
  | AssertError msg

datatype 'a outcome = Returned 'a | Threw error

text \<open>
  The module-level state the accessors consult: the two bindings imported from
  \<open>./invoker\<close>, the one imported from \<open>./component\<close>, the heap with its allocator, the
  watcher registry of \<open>./watcher\<close>, the contexts scheduled for a re-render, and the
  diagnostic channel.
\<close>

record world =
  isRendering :: bool
  vmBeingRendered :: "vmid option"
  vmBeingConstructed :: "vmid option"
  heap :: "ref \<Rightarrow> hobj option"
  nextRef :: ref
  listeners :: "ref \<times> string \<Rightarrow> vmid list"
  scheduled :: "vmid list"
  log :: "log_entry list"

text \<open>
  The object \<open>vnode.data.attrs\<close>: the properties of its own, which are the compiled
  attributes, and the properties it inherits through its prototype chain (for an object
  literal the members of \<open>Object.prototype\<close>, such as \<open>constructor\<close> and \<open>toString\<close>).
\<close>

record attrs_obj =
  ownAttrs :: "string \<Rightarrow> val option"
  inheritedAttrs :: "string \<Rightarrow> val option"

text \<open>\<open>k in o\<close> follows the prototype chain, and so does the read \<open>o[k]\<close>.\<close>

definition attr_in :: "string \<Rightarrow> attrs_obj \<Rightarrow> bool" where
  "attr_in k a = (ownAttrs a k \<noteq> None \<or> inheritedAttrs a k \<noteq> None)"

definition attr_read :: "attrs_obj \<Rightarrow> string \<Rightarrow> val" where
  "attr_read a k = (case ownAttrs a k of
      Some x \<Rightarrow> x
    | None \<Rightarrow> (case inheritedAttrs a k of Some y \<Rightarrow> y | None \<Rightarrow> VUndefined))"

text \<open>
  The view-model record (\<open>this[ViewModelReflection]\<close>): the fields html-element.ts reads
  and writes. \<open>attrs\<close> is \<open>vnode.data.attrs\<close> (\<open>None\<close> when it is undefined);
  \<open>publicProps\<close> is the set of names \<open>n\<close> for which \<open>def.props[n]\<close> is truthy.
\<close>

record vm =
  uid :: vmid
  cmpProps :: ref
  cmpWired :: "ref option"
  cmpState :: val
  cmpRoot :: val
  classListObj :: val
  cmpClasses :: val
  attrs :: "attrs_obj option"
  publicProps :: "string set"
  elmTabIndex :: int

text \<open>
  \<open>cmpWired\<close> is either undefined (\<open>None\<close>) or the reactive proxy of the record
  \<open>r\<close> (\<open>Some r\<close>): the file assigns it nothing else. \<open>elmTabIndex\<close> is the
  \<open>tabIndex\<close> of the linked element \<open>vnode.elm\<close>, a signed 32-bit integer.

  Every operation returns what it hands to its caller (a value, or the exception it
  throws) with the state it leaves behind.
\<close>

type_synonym 'a result = "'a outcome \<times> world \<times> vm"

text \<open>
  A public property descriptor: the name and the author-defined accessors of the
  original descriptor, when there are any. An author's accessor is arbitrary code.
\<close>

record pdesc =
  propName :: string
  origGetter :: "(world \<Rightarrow> vm \<Rightarrow> val result) option"
  origSetter :: "(val \<Rightarrow> world \<Rightarrow> vm \<Rightarrow> val result) option"

section \<open>Collaborators imported by html-element.ts\<close>

text \<open>
  Modelled from the spec: \<open>isBeingConstructed\<close> of \<open>./component\<close> is not in the
  sources at hand. The view-model is in its "constructing" phase exactly while it is
  the one the imported binding \<open>vmBeingConstructed\<close> points to.
\<close>

definition isBeingConstructed :: "world \<Rightarrow> vm \<Rightarrow> bool" where
  "isBeingConstructed w v = (vmBeingConstructed w = Some (uid v))"

text \<open>
  Modelled from the spec: the \<open>./assert\<close> module is not in the sources at hand.
  \<open>logError\<close> and \<open>logWarning\<close> report through the diagnostic channel and return
  (usage errors and advisories are reported, not thrown); \<open>fail\<close> raises a hard
  failure, and so does \<open>isFalse\<close> on a true condition, since the operation it guards must
  not be applied; \<open>block\<close> runs its function. The raising ones are the \<open>Threw\<close> branches
  of the operations below. \<open>assert.vm\<close> holds of every value of type \<open>vm\<close>.
\<close>

definition logError :: "msg \<Rightarrow> world \<Rightarrow> world" where
  "logError m w = w\<lparr>log := log w @ [LogError m]\<rparr>"

definition logWarning :: "msg \<Rightarrow> world \<Rightarrow> world" where
  "logWarning m w = w\<lparr>log := log w @ [LogWarning m]\<rparr>"

definition console_error :: "msg \<Rightarrow> world \<Rightarrow> world" where
  "console_error m w = w\<lparr>log := log w @ [ConsoleError m]\<rparr>"

definition console_log :: "msg \<Rightarrow> world \<Rightarrow> world" where
  "console_log m w = w\<lparr>log := log w @ [ConsoleLog m]\<rparr>"

text \<open>
  Modelled from the spec: the helpers of \<open>./language\<close> are not in the sources at hand.
  \<open>isArray\<close> holds of a sequence (and of its proxy), \<open>isUndefined\<close> of the undefined
  value, \<open>isObject\<close> of what \<open>typeof\<close> calls an object, null included.
\<close>

definition isArray :: "world \<Rightarrow> val \<Rightarrow> bool" where
  "isArray w x = (case x of
      VObj r \<Rightarrow> (case heap w r of Some (Array _) \<Rightarrow> True | _ \<Rightarrow> False)
    | VProxy r \<Rightarrow> (case heap w r of Some (Array _) \<Rightarrow> True | _ \<Rightarrow> False)
    | _ \<Rightarrow> False)"

definition isUndefined :: "val \<Rightarrow> bool" where
  "isUndefined x = (x = VUndefined)"

definition isObject :: "val \<Rightarrow> bool" where
  "isObject x = (case x of VNull \<Rightarrow> True | VObj _ \<Rightarrow> True | VProxy _ \<Rightarrow> True | _ \<Rightarrow> False)"

text \<open>
  Modelled from the spec: \<open>isObservable\<close> and \<open>getReactiveProxy\<close> of \<open>./reactive\<close> are
  not in the sources at hand. A value is eligible when it is a non-null structured
  record or sequence; wrapping is idempotent and gives one wrapper per target.
\<close>

definition isObservable :: "world \<Rightarrow> val \<Rightarrow> bool" where
  "isObservable w x = (case x of
      VObj r \<Rightarrow> (case heap w r of Some (Record _) \<Rightarrow> True | Some (Array _) \<Rightarrow> True | _ \<Rightarrow> False)
    | VProxy r \<Rightarrow> (case heap w r of Some (Record _) \<Rightarrow> True | Some (Array _) \<Rightarrow> True | _ \<Rightarrow> False)
    | _ \<Rightarrow> False)"

definition getReactiveProxy :: "val \<Rightarrow> val" where
  "getReactiveProxy x = (case x of VObj r \<Rightarrow> VProxy r | _ \<Rightarrow> x)"

text \<open>
  Modelled from the spec: \<open>create\<close> of \<open>./language\<close> is not in the sources at hand.
  \<open>create(null)\<close> is a fresh empty record; the object literal \<open>{}\<close> is allocated the same
  way.
\<close>

definition create_null :: "world \<Rightarrow> ref \<times> world" where
  "create_null w =
     (nextRef w, w\<lparr>heap := (heap w)(nextRef w \<mapsto> Record Map.empty), nextRef := Suc (nextRef w)\<rparr>)"

text \<open>
  Modelled from the spec: the classes of \<open>./class-list\<close> and \<open>./root\<close> are not in the
  sources at hand. \<open>new C(vm)\<close> is a fresh instance of \<open>C\<close>.
\<close>

definition new_instance :: "string \<Rightarrow> world \<Rightarrow> ref \<times> world" where
  "new_instance c w =
     (nextRef w, w\<lparr>heap := (heap w)(nextRef w \<mapsto> Instance c), nextRef := Suc (nextRef w)\<rparr>)"

text \<open>Property read \<open>o[k]\<close> and write \<open>o[k] = x\<close> on a plain record of the heap.\<close>

definition heap_get :: "world \<Rightarrow> ref \<Rightarrow> string \<Rightarrow> val" where
  "heap_get w r k = (case heap w r of
      Some (Record f) \<Rightarrow> (case f k of Some x \<Rightarrow> x | None \<Rightarrow> VUndefined)
    | _ \<Rightarrow> VUndefined)"

definition heap_set :: "ref \<Rightarrow> string \<Rightarrow> val \<Rightarrow> world \<Rightarrow> world" where
  "heap_set r k x w = (case heap w r of
      Some (Record f) \<Rightarrow> w\<lparr>heap := (heap w)(r \<mapsto> Record (f(k \<mapsto> x)))\<rparr>
    | _ \<Rightarrow> w)"

text \<open>
  Modelled from the spec: \<open>subscribeToSetHook\<close> and \<open>notifyListeners\<close> of \<open>./watcher\<close>
  are not in the sources at hand. The registry maps (observable, key) to its set of
  subscribers; notify walks that set and schedules each subscribed context, the
  scheduling deduplicated by subscriber.
\<close>

definition subscribeToSetHook :: "vmid option \<Rightarrow> ref \<Rightarrow> string \<Rightarrow> world \<Rightarrow> world" where
  "subscribeToSetHook c r k w = (case c of
      None \<Rightarrow> w
    | Some i \<Rightarrow> (if i \<in> set (listeners w (r, k)) then w
                else w\<lparr>listeners := (listeners w)((r, k) := listeners w (r, k) @ [i])\<rparr>))"

definition schedule :: "vmid \<Rightarrow> world \<Rightarrow> world" where
  "schedule i w = (if i \<in> set (scheduled w) then w else w\<lparr>scheduled := scheduled w @ [i]\<rparr>)"

definition notifyListeners :: "ref \<Rightarrow> string \<Rightarrow> world \<Rightarrow> world" where
  "notifyListeners r k w = fold schedule (listeners w (r, k)) w"

text \<open>
  Modelled from the spec: the traps of the reactive proxy (\<open>./reactive\<close>) are not in the
  sources at hand. A property get invokes the on-read hook (a subscription while a
  render is active) and wraps an eligible value on demand; a property set invokes the
  underlying mutation and the on-write hook (a notification).
\<close>

definition reactive_get :: "ref \<Rightarrow> string \<Rightarrow> world \<Rightarrow> val \<times> world" where
  "reactive_get r k w =
     (let w' = (if isRendering w then subscribeToSetHook (vmBeingRendered w) r k w else w);
          x = heap_get w r k
      in ((if isObservable w x then getReactiveProxy x else x), w'))"

definition reactive_set :: "ref \<Rightarrow> string \<Rightarrow> val \<Rightarrow> world \<Rightarrow> world" where
  "reactive_set r k x w = notifyListeners r k (heap_set r k x w)"

section \<open>createPublicPropertyDescriptor\<close>

definition public_getter :: "pdesc \<Rightarrow> world \<Rightarrow> vm \<Rightarrow> val result" where
  "public_getter d w v =
     (if isBeingConstructed w v then
        (Returned VUndefined, logError (MsgCtorRead (uid v) (propName d)) w, v)
      else (case origGetter d of
          Some g \<Rightarrow> g w v
        | None \<Rightarrow>
            (let w' = (if isRendering w
                        then subscribeToSetHook (vmBeingRendered w) (cmpProps v) (propName d) w
                        else w)
             in (Returned (heap_get w' (cmpProps v) (propName d)), w', v))))"

definition public_setter :: "pdesc \<Rightarrow> val \<Rightarrow> world \<Rightarrow> vm \<Rightarrow> val result" where
  "public_setter d x w v =
     (if \<not> isBeingConstructed w v then
        (Returned VUndefined, logError (MsgSetOutsideCtor (uid v) (propName d)) w, v)
      else (case origSetter d of
          Some s \<Rightarrow> (case s x w v of
              (Threw e, w', v') \<Rightarrow> (Threw e, w', v')
            | (Returned _, w', v') \<Rightarrow> (Returned VUndefined, w', v'))
        | None \<Rightarrow>
            (let observable = isObservable w x;
                 w1 = (if \<not> observable \<and> isObject x
                       then logWarning (MsgNonReactive (uid v) (propName d) x) w else w)
             in (Returned VUndefined,
                 heap_set (cmpProps v) (propName d)
                   (if observable then getReactiveProxy x else x) w1, v))))"

section \<open>createWiredPropertyDescriptor\<close>

text \<open>The lazy creation of the wired store, shared by the getter and the setter.\<close>

definition lazy_cmpWired :: "world \<Rightarrow> vm \<Rightarrow> ref \<times> world \<times> vm" where
  "lazy_cmpWired w v = (case cmpWired v of
      Some r \<Rightarrow> (r, w, v)
    | None \<Rightarrow> (case create_null w of (r, w') \<Rightarrow> (r, w', v\<lparr>cmpWired := Some r\<rparr>)))"

definition wired_getter :: "string \<Rightarrow> world \<Rightarrow> vm \<Rightarrow> val result" where
  "wired_getter name w v =
     (case lazy_cmpWired w v of (r, w1, v1) \<Rightarrow>
       (case reactive_get r name w1 of (x, w2) \<Rightarrow>
         (let w3 = (if isRendering w2 then subscribeToSetHook (vmBeingRendered w2) r name w2
                    else w2)
          in (Returned x, w3, v1))))"

definition wired_setter :: "string \<Rightarrow> val \<Rightarrow> world \<Rightarrow> vm \<Rightarrow> val result" where
  "wired_setter name x w v =
     (let observable = isObservable w x in
      if isArray w x \<or> \<not> observable then
        (Threw (AssertError (MsgWiredFail (uid v) name)), w, v)
      else (case lazy_cmpWired w v of (r, w1, v1) \<Rightarrow>
        (let w2 = reactive_set r name (if observable then getReactiveProxy x else x) w1;
             w3 = notifyListeners r name w2
         in (Returned VUndefined, w3, v1))))"

section \<open>ComponentElement.prototype\<close>

text \<open>
  The element's \<open>tabIndex\<close> is a 32-bit \<open>long\<close>: the assignment converts the (integral)
  number given, wrapping it into the signed 32-bit range.
\<close>

definition toInt32 :: "int \<Rightarrow> int" where
  "toInt32 n = (n + 2 ^ 31) mod 2 ^ 32 - 2 ^ 31"

definition set_tabIndex :: "int \<Rightarrow> world \<Rightarrow> vm \<Rightarrow> val result" where
  "set_tabIndex n w v =
     (if isRendering w then
        (Threw (AssertError (MsgTabIndexRendering n (vmBeingRendered w))), w, v)
      else if isBeingConstructed w v then
        (Threw (AssertError (MsgTabIndexCtor (uid v))), w, v)
      else (Returned VUndefined, w, v\<lparr>elmTabIndex := toInt32 n\<rparr>))"

definition get_classList :: "world \<Rightarrow> vm \<Rightarrow> val result" where
  "get_classList w v =
     (if isUndefined (classListObj v) then
        (case create_null w of (c, w1) \<Rightarrow>
          (case new_instance ''ClassList'' w1 of (r, w2) \<Rightarrow>
            (Returned (VObj r), w2, v\<lparr>cmpClasses := VObj c, classListObj := VObj r\<rparr>)))
      else (Returned (classListObj v), w, v))"

definition get_root :: "world \<Rightarrow> vm \<Rightarrow> val result" where
  "get_root w v =
     (if isUndefined (cmpRoot v) then
        (case new_instance ''Root'' w of (r, w1) \<Rightarrow>
          (Returned (VObj r), w1, v\<lparr>cmpRoot := VObj r\<rparr>))
      else (Returned (cmpRoot v), w, v))"

definition get_state :: "world \<Rightarrow> vm \<Rightarrow> val result" where
  "get_state w v =
     (if isUndefined (cmpState v) then
        (case create_null w of (r, w1) \<Rightarrow>
          (Returned (getReactiveProxy (VObj r)), w1, v\<lparr>cmpState := getReactiveProxy (VObj r)\<rparr>))
      else (Returned (cmpState v), w, v))"

definition set_state :: "val \<Rightarrow> world \<Rightarrow> vm \<Rightarrow> val result" where
  "set_state newState w v =
     (if isArray w newState \<or> \<not> isObservable w newState then
        (Threw (AssertError (MsgStateFail (uid v) newState)), w, v)
      else (Returned VUndefined, w, v\<lparr>cmpState := getReactiveProxy newState\<rparr>))"

text \<open>
  The DOM and the boundary filter are external collaborators, taken as parameters:
  the native \<open>elm.querySelectorAll\<close> of the linked element, \<open>wasNodePassedIntoVM\<close> of
  \<open>./vm\<close>, \<open>pierce\<close> of \<open>./piercing\<close> (applied to a node or to a list of nodes), and the
  two queries of \<open>./root\<close>. Nodes are references.
\<close>

datatype target = TNode ref | TList "ref list"

record 'p dom =
  elmQuerySelectorAll :: "vm \<Rightarrow> string \<Rightarrow> ref list"
  wasNodePassedIntoVM :: "vm \<Rightarrow> ref \<Rightarrow> bool"
  pierce :: "vm \<Rightarrow> target \<Rightarrow> 'p"
  shadowRootQuerySelector :: "val \<Rightarrow> string \<Rightarrow> ref option"
  shadowRootQuerySelectorAll :: "val \<Rightarrow> string \<Rightarrow> ref list"

text \<open>The \<open>for\<close> loop of \<open>querySelector\<close>: the first node of the list that was passed in.\<close>

fun first_passed :: "(ref \<Rightarrow> bool) \<Rightarrow> ref list \<Rightarrow> ref option" where
  "first_passed p [] = None"
| "first_passed p (n # ns) = (if p n then Some n else first_passed p ns)"

definition querySelector :: "'p dom \<Rightarrow> string \<Rightarrow> world \<Rightarrow> vm \<Rightarrow> 'p option result" where
  "querySelector D selectors w v =
     (if isBeingConstructed w v then
        (Threw (AssertError (MsgQueryDuringCtor (uid v))), w, v)
      else (case first_passed (wasNodePassedIntoVM D v) (elmQuerySelectorAll D v selectors) of
          Some n \<Rightarrow> (Returned (Some (pierce D v (TNode n))), w, v)
        | None \<Rightarrow> (case get_root w v of
              (Threw e, w1, v1) \<Rightarrow> (Threw e, w1, v1)
            | (Returned root, w1, v1) \<Rightarrow>
                (Returned None,
                 (if shadowRootQuerySelector D root selectors \<noteq> None
                  then logWarning (MsgQueryTemplate (uid v1)) w1 else w1),
                 v1))))"

definition querySelectorAll :: "'p dom \<Rightarrow> string \<Rightarrow> world \<Rightarrow> vm \<Rightarrow> 'p result" where
  "querySelectorAll D selectors w v =
     (if isBeingConstructed w v then
        (Threw (AssertError (MsgQueryDuringCtor (uid v))), w, v)
      else
        (let filteredNodes = filter (wasNodePassedIntoVM D v) (elmQuerySelectorAll D v selectors)
         in if length filteredNodes = 0 then
              (case get_root w v of
                  (Threw e, w1, v1) \<Rightarrow> (Threw e, w1, v1)
                | (Returned root, w1, v1) \<Rightarrow>
                    (Returned (pierce D v1 (TList filteredNodes)),
                     (if length (shadowRootQuerySelectorAll D root selectors) \<noteq> 0
                      then logWarning (MsgQueryTemplate (uid v1)) w1 else w1),
                     v1))
            else (Returned (pierce D v (TList filteredNodes)), w, v)))"

text \<open>
  The helpers of \<open>./utils\<close> and the metadata table of \<open>./dom\<close> are not in the sources at
  hand and are taken as parameters. An entry of the table has the four fields the
  source destructures; \<open>None\<close> is an absent (undefined) field.
\<close>

record ghp =
  attribute :: "string option"
  error :: "string option"
  readOnly :: bool
  experimental :: bool

record utils =
  getPropNameFromAttrName :: "string \<Rightarrow> string"
  toAttributeValue :: "val \<Rightarrow> val"
  GlobalHTMLProperties :: "(string \<times> ghp) list"

text \<open>
  Truthiness of an optional string: present and not empty. Interpolated into a
  template string, an absent one reads \<open>undefined\<close>.
\<close>

definition truthy :: "string option \<Rightarrow> bool" where
  "truthy s = (case s of None \<Rightarrow> False | Some t \<Rightarrow> t \<noteq> [])"

definition interp :: "string option \<Rightarrow> string" where
  "interp s = (case s of None \<Rightarrow> ''undefined'' | Some t \<Rightarrow> t)"

text \<open>
  \<open>getAttribute\<close> is given the argument list, so that \<open>arguments.length\<close> is its
  length and \<open>attrName\<close> its first element (undefined when there is none). The table
  lookup \<open>GlobalHTMLProperties[propName]\<close> is a lookup among the table's entries: a
  member the table inherits has no \<open>attribute\<close> field, and logs nothing either.
\<close>

definition getAttribute :: "utils \<Rightarrow> string list \<Rightarrow> world \<Rightarrow> vm \<Rightarrow> val result" where
  "getAttribute U args w v =
     (if \<not> truthy (case args of [] \<Rightarrow> None | a # _ \<Rightarrow> Some a) then
        (if length args = 0 then (Threw (TypeError (MsgGetAttributeArity (uid v))), w, v)
         else (Returned VNull, w, v))
      else
        (let attrName = hd args;
             propName = getPropNameFromAttrName U attrName
         in if propName \<in> publicProps v then
              (Threw (ReferenceError (MsgAttrIsPublicProp (uid v) attrName propName)), w, v)
            else
              (let w1 = (case map_of (GlobalHTMLProperties U) propName of
                           None \<Rightarrow> w
                         | Some g \<Rightarrow>
                             (if truthy (attribute g) then
                                (if truthy (error g) then console_error (MsgAttrError (interp (error g))) w
                                 else if experimental g
                                   then console_error (MsgAttrExperimental attrName propName) w
                                 else w)
                              else w));
                   raw = (case attrs v of
                            None \<Rightarrow> VNull
                          | Some a \<Rightarrow> (if attr_in attrName a then attr_read a attrName else VNull))
               in (Returned (toAttributeValue U raw), w1, v))))"

section \<open>Disabled accessors for the global HTML attributes\<close>

text \<open>
  The names \<open>propName in ComponentElement.prototype\<close> holds for before the block runs:
  the members of the prototype literal and those inherited from \<open>Object.prototype\<close>.
\<close>

definition prototype_names :: "string list" where
  "prototype_names =
     [''renderedCallback'', ''render'', ''connectedCallback'', ''disconnectedCallback'',
      ''dispatchEvent'', ''addEventListener'', ''removeEventListener'', ''getAttribute'',
      ''getBoundingClientRect'', ''querySelector'', ''querySelectorAll'', ''tagName'',
      ''tabIndex'', ''classList'', ''root'', ''state'', ''toString'',
      ''constructor'', ''hasOwnProperty'', ''isPrototypeOf'', ''propertyIsEnumerable'',
      ''toLocaleString'', ''valueOf'', ''__proto__'', ''__defineGetter__'',
      ''__defineSetter__'', ''__lookupGetter__'', ''__lookupSetter__'']"

text \<open>The \<open>forEach\<close>: the names that get a disabled accessor, in the table's order.\<close>

fun disabled_names :: "string list \<Rightarrow> string list \<Rightarrow> string list" where
  "disabled_names defined [] = []"
| "disabled_names defined (n # ns) =
     (if n \<in> set defined then disabled_names defined ns
      else n # disabled_names (n # defined) ns)"

text \<open>The array \<open>msg\<close> the getter fills by its pushes.\<close>

definition global_lines :: "string \<Rightarrow> vmid \<Rightarrow> ghp \<Rightarrow> gline list" where
  "global_lines name i g =
     [LDisabled name i] @
     (if truthy (error g) then [LError (interp (error g))]
      else (if experimental g then [LExperimental name (interp (attribute g))] else []) @
           (if readOnly g then [LReadOnly] else []) @
           (if truthy (attribute g)
            then [LInstead (interp (attribute g)), LUseGetAttribute (interp (attribute g)),
                  LDeclareObserved (interp (attribute g))]
            else []))"

definition global_getter :: "utils \<Rightarrow> string \<Rightarrow> world \<Rightarrow> vm \<Rightarrow> val result" where
  "global_getter U name w v = (case map_of (GlobalHTMLProperties U) name of
      None \<Rightarrow> (Threw (TypeError (MsgDestructureUndefined name)), w, v)
    | Some g \<Rightarrow>
        (Returned VUndefined, console_log (MsgGlobalDisabled (global_lines name (uid v) g)) w, v))"

text \<open>
  Reading the property \<open>name\<close> of a component through the accessors the block defined:
  \<open>None\<close> when the block defined no accessor of that name.
\<close>

definition get_global_property :: "utils \<Rightarrow> string \<Rightarrow> world \<Rightarrow> vm \<Rightarrow> val result option" where
  "get_global_property U name w v =
     (if name \<in> set (disabled_names prototype_names (map fst (GlobalHTMLProperties U)))
      then Some (global_getter U name w v) else None)"

section \<open>Concrete instances\<close>

text \<open>
  A small world: view-model 1 is under construction, its public-props store is the
  empty record 0; record 5 is the object literal \<open>{a: 1}\<close>, 6 is an empty array, 7 a DOM
  node, 9 the function \<open>Object\<close> that an object literal inherits as its \<open>constructor\<close>.
\<close>

definition ex_world :: world where
  "ex_world = \<lparr>isRendering = False, vmBeingRendered = None, vmBeingConstructed = Some 1,
     heap = [0 \<mapsto> Record Map.empty, 5 \<mapsto> Record [''a'' \<mapsto> VNum 1], 6 \<mapsto> Array [],
             7 \<mapsto> Instance ''Node'', 9 \<mapsto> Instance ''Function''],
     nextRef = 10, listeners = (\<lambda>_. []), scheduled = [], log = []\<rparr>"

definition ex_vm :: vm where
  "ex_vm = \<lparr>uid = 1, cmpProps = 0, cmpWired = None, cmpState = VUndefined,
     cmpRoot = VUndefined, classListObj = VUndefined, cmpClasses = VUndefined,
     attrs = Some \<lparr>ownAttrs = [''title'' \<mapsto> VStr ''hello'', ''label'' \<mapsto> VStr ''x''],
                  inheritedAttrs = [''constructor'' \<mapsto> VObj 9]\<rparr>,
     publicProps = {''label''},
     elmTabIndex = 0\<rparr>"

text \<open>
  The same world during a render pass of view-model 2, with view-model 1 constructed and
  its public property \<open>label\<close> set to a string.
\<close>

definition ex_render :: world where
  "ex_render = ex_world\<lparr>isRendering := True, vmBeingRendered := Some 2,
     vmBeingConstructed := None,
     heap := (heap ex_world)(0 \<mapsto> Record [''label'' \<mapsto> VStr ''hi''])\<rparr>"

text \<open>
  View-model 1 once it has a wired store, the record 3, to whose key \<open>data\<close> the render
  context 2 has subscribed.
\<close>

definition ex_subscribed :: world where
  "ex_subscribed = ex_world\<lparr>vmBeingConstructed := None,
     heap := (heap ex_world)(3 \<mapsto> Record Map.empty),
     listeners := (\<lambda>p. if p = (3, ''data'') then [2] else [])\<rparr>"

definition ex_wired_vm :: vm where
  "ex_wired_vm = ex_vm\<lparr>cmpWired := Some 3\<rparr>"

text \<open>A plain declared property, and one whose author defined a setter that ignores its argument.\<close>

definition ex_plain :: pdesc where
  "ex_plain = \<lparr>propName = ''label'', origGetter = None, origSetter = None\<rparr>"

definition ex_authored :: pdesc where
  "ex_authored = \<lparr>propName = ''label'', origGetter = None,
     origSetter = Some (\<lambda>x w v. (Returned VUndefined, w, v))\<rparr>"

text \<open>
  A host element whose query for \<open>p\<close> finds node 8, declared in the component's own
  template, and node 7, passed in by the composer; the membrane is the identity.
\<close>

definition ex_dom :: "target dom" where
  "ex_dom = \<lparr>elmQuerySelectorAll = (\<lambda>v s. if s = ''p'' then [8, 7] else []),
     wasNodePassedIntoVM = (\<lambda>v n. n = 7),
     pierce = (\<lambda>v t. t),
     shadowRootQuerySelector = (\<lambda>r s. if s = ''p'' then Some 8 else None),
     shadowRootQuerySelectorAll = (\<lambda>r s. if s = ''p'' then [8] else [])\<rparr>"

text \<open>
  Helpers and a metadata table with three entries. The attribute names used have no
  hyphen, so their property names are themselves; the normalisation keeps strings and
  null.
\<close>

definition ex_utils :: utils where
  "ex_utils = \<lparr>getPropNameFromAttrName = (\<lambda>s. s),
     toAttributeValue = (\<lambda>x. x),
     GlobalHTMLProperties =
       [(''title'', \<lparr>attribute = Some ''title'', error = None, readOnly = False,
                     experimental = False\<rparr>),
        (''tabIndex'', \<lparr>attribute = Some ''tabindex'', error = None, readOnly = False,
                        experimental = False\<rparr>),
        (''dropzone'', \<lparr>attribute = Some ''dropzone'', error = None, readOnly = True,
                        experimental = True\<rparr>)]\<rparr>"

section \<open>Facts about the heap helpers\<close>

lemma heap_get_logError [simp]: "heap_get (logError m w) r k = heap_get w r k"
  by (simp add: heap_get_def logError_def)

lemma heap_get_set_same:
  "heap w r = Some (Record f) \<Longrightarrow> heap_get (heap_set r k x w) r k = x"
  by (simp add: heap_get_def heap_set_def)

lemma heap_subscribe [simp]: "heap (subscribeToSetHook c r k w) = heap w"
  by (simp add: subscribeToSetHook_def split: option.splits)

lemma heap_logWarning [simp]: "heap (logWarning m w) = heap w"
  by (simp add: logWarning_def)

section \<open>Public properties\<close>

text \<open>
  C1, as the code has it. A write to a declared public property that has no
  author-defined accessor, performed while the view-model is being constructed,
  stores the value (its reactive proxy when it is observable) in the public-props
  store, and a read made once the view-model has left construction returns it. A write
  attempted when the view-model is not being constructed, whatever the descriptor, is
  reported as an error and leaves everything but the log as it was.
\<close>

theorem public_write_only_during_construction:
  "(isBeingConstructed w v \<and> origSetter d = None \<and> origGetter d = None
      \<and> heap w (cmpProps v) = Some (Record f) \<longrightarrow>
      (case public_setter d x w v of (r, w1, v1) \<Rightarrow>
         r = Returned VUndefined \<and> v1 = v
         \<and> heap_get w1 (cmpProps v) (propName d)
             = (if isObservable w x then getReactiveProxy x else x)
         \<and> (\<forall>b c. fst (public_getter d
                (w1\<lparr>isRendering := b, vmBeingRendered := c, vmBeingConstructed := None\<rparr>) v1)
             = Returned (if isObservable w x then getReactiveProxy x else x))))
   \<and> (\<not> isBeingConstructed w v \<longrightarrow>
        public_setter d x w v
          = (Returned VUndefined,
             w\<lparr>log := log w @ [LogError (MsgSetOutsideCtor (uid v) (propName d))]\<rparr>, v))"
  apply (intro conjI impI)
  subgoal
    apply (clarsimp simp: public_setter_def Let_def public_getter_def isBeingConstructed_def)
    apply (auto simp: heap_get_def heap_set_def logWarning_def subscribeToSetHook_def split: option.splits)
    done
  subgoal by (simp add: public_setter_def logError_def)
  done

theorem public_write_only_during_construction_witness:
  "isBeingConstructed ex_world ex_vm \<and> origSetter ex_plain = None \<and> origGetter ex_plain = None
   \<and> heap ex_world (cmpProps ex_vm) = Some (Record Map.empty)
   \<and> (case public_setter ex_plain (VObj 5) ex_world ex_vm of (r, w1, v1) \<Rightarrow>
         r = Returned VUndefined \<and> v1 = ex_vm
         \<and> heap_get w1 0 ''label'' = VProxy 5
         \<and> fst (public_getter ex_plain
               (w1\<lparr>isRendering := False, vmBeingRendered := None, vmBeingConstructed := None\<rparr>) v1)
             = Returned (VProxy 5))
   \<and> \<not> isBeingConstructed (ex_world\<lparr>vmBeingConstructed := None\<rparr>) ex_vm
   \<and> public_setter ex_plain (VObj 5) (ex_world\<lparr>vmBeingConstructed := None\<rparr>) ex_vm
        = (Returned VUndefined,
           ex_world\<lparr>vmBeingConstructed := None,
             log := [LogError (MsgSetOutsideCtor 1 ''label'')]\<rparr>, ex_vm)"
proof -
  have a: "isBeingConstructed ex_world ex_vm \<and> origSetter ex_plain = None
      \<and> origGetter ex_plain = None \<and> heap ex_world (cmpProps ex_vm) = Some (Record Map.empty)"
    by (simp add: isBeingConstructed_def ex_world_def ex_vm_def ex_plain_def)
  have b: "\<not> isBeingConstructed (ex_world\<lparr>vmBeingConstructed := None\<rparr>) ex_vm"
    by (simp add: isBeingConstructed_def)
  have o: "isObservable ex_world (VObj 5)"
    by (simp add: isObservable_def ex_world_def)
  have p: "propName ex_plain = ''label''" "cmpProps ex_vm = 0" "uid ex_vm = 1" "log ex_world = []"
    by (simp_all add: ex_plain_def ex_vm_def ex_world_def)
  note t1 = public_write_only_during_construction
      [of ex_world ex_vm ex_plain Map.empty "VObj 5", THEN conjunct1, rule_format, OF a]
  note t2 = public_write_only_during_construction
      [of "ex_world\<lparr>vmBeingConstructed := None\<rparr>" ex_vm ex_plain Map.empty "VObj 5",
        THEN conjunct2, rule_format, OF b]
  show ?thesis
    using a b t1 t2 o p
    by (auto simp: getReactiveProxy_def split: prod.splits)
qed

text \<open>
  C1 as stated covers every declared public property. With an author-defined setter the
  runtime hands the value to that setter and stores nothing: here the author's setter
  ignores its argument, and neither the store nor a later read has the value.
\<close>

theorem public_write_authored_setter_counterexample:
  "isBeingConstructed ex_world ex_vm
   \<and> (case public_setter ex_authored (VNum 7) ex_world ex_vm of (r, w1, v1) \<Rightarrow>
        heap_get w1 (cmpProps v1) ''label'' \<noteq> VNum 7
        \<and> fst (public_getter ex_authored (w1\<lparr>vmBeingConstructed := None\<rparr>) v1)
            \<noteq> Returned (VNum 7))"
  by (simp add: isBeingConstructed_def public_setter_def public_getter_def ex_world_def
      ex_vm_def ex_authored_def heap_get_def)

text \<open>
  C7. While the view-model is being constructed, reading a declared public property
  reports a usage error and returns undefined, whether or not the author defined a
  getter: the check comes before the delegation.
\<close>

theorem public_read_during_construction:
  "isBeingConstructed w v \<Longrightarrow>
     public_getter d w v
       = (Returned VUndefined,
          w\<lparr>log := log w @ [LogError (MsgCtorRead (uid v) (propName d))]\<rparr>, v)"
  by (simp add: public_getter_def logError_def)

theorem public_read_during_construction_witness:
  "isBeingConstructed ex_world ex_vm
   \<and> public_getter (ex_plain\<lparr>origGetter := Some (\<lambda>w v. (Returned (VNum 3), w, v))\<rparr>) ex_world ex_vm
       = (Returned VUndefined, ex_world\<lparr>log := [LogError (MsgCtorRead 1 ''label'')]\<rparr>, ex_vm)"
proof -
  have a: "isBeingConstructed ex_world ex_vm"
    by (simp add: isBeingConstructed_def ex_world_def ex_vm_def)
  show ?thesis
    using a public_read_during_construction [OF a,
        of "ex_plain\<lparr>origGetter := Some (\<lambda>w v. (Returned (VNum 3), w, v))\<rparr>"]
    by (simp add: ex_plain_def ex_vm_def ex_world_def)
qed

section \<open>Lazily created per-instance objects\<close>

lemma get_state_first:
  "isUndefined (cmpState v) \<Longrightarrow>
     get_state w v = (Returned (VProxy (nextRef w)),
       w\<lparr>heap := (heap w)(nextRef w \<mapsto> Record Map.empty), nextRef := Suc (nextRef w)\<rparr>,
       v\<lparr>cmpState := VProxy (nextRef w)\<rparr>)"
  by (simp add: get_state_def create_null_def getReactiveProxy_def)

lemma get_classList_first:
  "isUndefined (classListObj v) \<Longrightarrow>
     get_classList w v = (Returned (VObj (Suc (nextRef w))),
       w\<lparr>heap := (heap w)(nextRef w \<mapsto> Record Map.empty,
                             Suc (nextRef w) \<mapsto> Instance ''ClassList''),
         nextRef := Suc (Suc (nextRef w))\<rparr>,
       v\<lparr>cmpClasses := VObj (nextRef w), classListObj := VObj (Suc (nextRef w))\<rparr>)"
  by (simp add: get_classList_def create_null_def new_instance_def)

lemma get_root_first:
  "isUndefined (cmpRoot v) \<Longrightarrow>
     get_root w v = (Returned (VObj (nextRef w)),
       w\<lparr>heap := (heap w)(nextRef w \<mapsto> Instance ''Root''), nextRef := Suc (nextRef w)\<rparr>,
       v\<lparr>cmpRoot := VObj (nextRef w)\<rparr>)"
  by (simp add: get_root_def new_instance_def)

lemma get_state_later:
  "\<not> isUndefined (cmpState v) \<Longrightarrow> get_state w v = (Returned (cmpState v), w, v)"
  by (simp add: get_state_def)

lemma get_classList_later:
  "\<not> isUndefined (classListObj v) \<Longrightarrow> get_classList w v = (Returned (classListObj v), w, v)"
  by (simp add: get_classList_def)

lemma get_root_later:
  "\<not> isUndefined (cmpRoot v) \<Longrightarrow> get_root w v = (Returned (cmpRoot v), w, v)"
  by (simp add: get_root_def)

lemma get_state_keeps:
  "get_state w v = (r, w1, v1) \<Longrightarrow>
     (\<exists>x. r = Returned x \<and> x \<noteq> VUndefined \<and> cmpState v1 = x)
     \<and> cmpRoot v1 = cmpRoot v \<and> classListObj v1 = classListObj v"
  by (cases "isUndefined (cmpState v)")
     (auto simp: get_state_first get_state_later isUndefined_def)

lemma get_classList_keeps:
  "get_classList w v = (r, w1, v1) \<Longrightarrow>
     (\<exists>x. r = Returned x \<and> x \<noteq> VUndefined \<and> classListObj v1 = x)
     \<and> cmpRoot v1 = cmpRoot v \<and> cmpState v1 = cmpState v"
  by (cases "isUndefined (classListObj v)")
     (auto simp: get_classList_first get_classList_later isUndefined_def)

lemma get_root_keeps:
  "get_root w v = (r, w1, v1) \<Longrightarrow>
     (\<exists>x. r = Returned x \<and> x \<noteq> VUndefined \<and> cmpRoot v1 = x)
     \<and> cmpState v1 = cmpState v \<and> classListObj v1 = classListObj v"
  by (cases "isUndefined (cmpRoot v)")
     (auto simp: get_root_first get_root_later isUndefined_def)

text \<open>
  C10. The backing object of \<open>state\<close>, and likewise of \<open>classList\<close> and of \<open>root\<close>, is
  created on the first read: a fresh object is allocated and stored in the view-model.
  Every read returns a defined object, the one the view-model then holds, and leaves the
  other two backing fields alone; from then on, in whatever world and after whatever
  else has happened to the view-model, as long as that field still holds the object, a
  read returns the identity-same object and changes nothing. So two consecutive reads
  of one accessor are reference-equal, also with reads of the other accessors between
  them.
\<close>

theorem lazy_objects_stable:
  "(case get_state w v of (r1, w1, v1) \<Rightarrow>
      (\<exists>x. r1 = Returned x \<and> x \<noteq> VUndefined \<and> cmpState v1 = x)
      \<and> cmpRoot v1 = cmpRoot v \<and> classListObj v1 = classListObj v
      \<and> (\<forall>w' v'. cmpState v' = cmpState v1 \<longrightarrow> get_state w' v' = (r1, w', v')))
   \<and> (case get_classList w v of (r1, w1, v1) \<Rightarrow>
      (\<exists>x. r1 = Returned x \<and> x \<noteq> VUndefined \<and> classListObj v1 = x)
      \<and> cmpRoot v1 = cmpRoot v \<and> cmpState v1 = cmpState v
      \<and> (\<forall>w' v'. classListObj v' = classListObj v1 \<longrightarrow> get_classList w' v' = (r1, w', v')))
   \<and> (case get_root w v of (r1, w1, v1) \<Rightarrow>
      (\<exists>x. r1 = Returned x \<and> x \<noteq> VUndefined \<and> cmpRoot v1 = x)
      \<and> cmpState v1 = cmpState v \<and> classListObj v1 = classListObj v
      \<and> (\<forall>w' v'. cmpRoot v' = cmpRoot v1 \<longrightarrow> get_root w' v' = (r1, w', v')))
   \<and> (isUndefined (cmpState v) \<longrightarrow>
        get_state w v = (Returned (VProxy (nextRef w)),
          w\<lparr>heap := (heap w)(nextRef w \<mapsto> Record Map.empty), nextRef := Suc (nextRef w)\<rparr>,
          v\<lparr>cmpState := VProxy (nextRef w)\<rparr>))
   \<and> (isUndefined (classListObj v) \<longrightarrow>
        get_classList w v = (Returned (VObj (Suc (nextRef w))),
          w\<lparr>heap := (heap w)(nextRef w \<mapsto> Record Map.empty,
                                Suc (nextRef w) \<mapsto> Instance ''ClassList''),
            nextRef := Suc (Suc (nextRef w))\<rparr>,
          v\<lparr>cmpClasses := VObj (nextRef w), classListObj := VObj (Suc (nextRef w))\<rparr>))
   \<and> (isUndefined (cmpRoot v) \<longrightarrow>
        get_root w v = (Returned (VObj (nextRef w)),
          w\<lparr>heap := (heap w)(nextRef w \<mapsto> Instance ''Root''), nextRef := Suc (nextRef w)\<rparr>,
          v\<lparr>cmpRoot := VObj (nextRef w)\<rparr>))"
proof -
  have s: "case get_state w v of (r1, w1, v1) \<Rightarrow>
      (\<exists>x. r1 = Returned x \<and> x \<noteq> VUndefined \<and> cmpState v1 = x)
      \<and> cmpRoot v1 = cmpRoot v \<and> classListObj v1 = classListObj v
      \<and> (\<forall>w' v'. cmpState v' = cmpState v1 \<longrightarrow> get_state w' v' = (r1, w', v'))"
  proof (cases "get_state w v")
    case (fields r1 w1 v1)
    from get_state_keeps [OF fields] obtain x where
      k: "r1 = Returned x" "x \<noteq> VUndefined" "cmpState v1 = x"
        "cmpRoot v1 = cmpRoot v" "classListObj v1 = classListObj v"
      by blast
    have "\<forall>w' v'. cmpState v' = cmpState v1 \<longrightarrow> get_state w' v' = (r1, w', v')"
      using k by (simp add: get_state_later isUndefined_def)
    with k show ?thesis by (simp add: fields)
  qed
  have c: "case get_classList w v of (r1, w1, v1) \<Rightarrow>
      (\<exists>x. r1 = Returned x \<and> x \<noteq> VUndefined \<and> classListObj v1 = x)
      \<and> cmpRoot v1 = cmpRoot v \<and> cmpState v1 = cmpState v
      \<and> (\<forall>w' v'. classListObj v' = classListObj v1 \<longrightarrow> get_classList w' v' = (r1, w', v'))"
  proof (cases "get_classList w v")
    case (fields r1 w1 v1)
    from get_classList_keeps [OF fields] obtain x where
      k: "r1 = Returned x" "x \<noteq> VUndefined" "classListObj v1 = x"
        "cmpRoot v1 = cmpRoot v" "cmpState v1 = cmpState v"
      by blast
    have "\<forall>w' v'. classListObj v' = classListObj v1 \<longrightarrow> get_classList w' v' = (r1, w', v')"
      using k by (simp add: get_classList_later isUndefined_def)
    with k show ?thesis by (simp add: fields)
  qed
  have r: "case get_root w v of (r1, w1, v1) \<Rightarrow>
      (\<exists>x. r1 = Returned x \<and> x \<noteq> VUndefined \<and> cmpRoot v1 = x)
      \<and> cmpState v1 = cmpState v \<and> classListObj v1 = classListObj v
      \<and> (\<forall>w' v'. cmpRoot v' = cmpRoot v1 \<longrightarrow> get_root w' v' = (r1, w', v'))"
  proof (cases "get_root w v")
    case (fields r1 w1 v1)
    from get_root_keeps [OF fields] obtain x where
      k: "r1 = Returned x" "x \<noteq> VUndefined" "cmpRoot v1 = x"
        "cmpState v1 = cmpState v" "classListObj v1 = classListObj v"
      by blast
    have "\<forall>w' v'. cmpRoot v' = cmpRoot v1 \<longrightarrow> get_root w' v' = (r1, w', v')"
      using k by (simp add: get_root_later isUndefined_def)
    with k show ?thesis by (simp add: fields)
  qed
  from s c r get_state_first [of v w] get_classList_first [of v w] get_root_first [of v w]
  show ?thesis by blast
qed

theorem lazy_objects_stable_witness:
  "isUndefined (cmpState ex_vm) \<and> isUndefined (classListObj ex_vm) \<and> isUndefined (cmpRoot ex_vm)
   \<and> (case get_root ex_world ex_vm of (r1, w1, v1) \<Rightarrow>
         r1 = Returned (VObj 10) \<and> heap w1 10 = Some (Instance ''Root'')
         \<and> get_root w1 v1 = (Returned (VObj 10), w1, v1)
         \<and> (case get_state w1 v1 of (r2, w2, v2) \<Rightarrow>
               r2 = Returned (VProxy 11)
               \<and> (case get_classList w2 v2 of (r3, w3, v3) \<Rightarrow>
                     r3 = Returned (VObj 13)
                     \<and> get_root w3 v3 = (Returned (VObj 10), w3, v3)
                     \<and> get_state w3 v3 = (Returned (VProxy 11), w3, v3)
                     \<and> get_classList w3 v3 = (Returned (VObj 13), w3, v3))))"
proof -
  have u: "isUndefined (cmpState ex_vm)" "isUndefined (classListObj ex_vm)"
      "isUndefined (cmpRoot ex_vm)"
    by (simp_all add: isUndefined_def ex_vm_def)
  have n: "nextRef ex_world = 10"
    by (simp add: ex_world_def)
  obtain w1 v1 where g1: "get_root ex_world ex_vm = (Returned (VObj 10), w1, v1)"
      and w1: "w1 = ex_world\<lparr>heap := (heap ex_world)(10 \<mapsto> Instance ''Root''), nextRef := 11\<rparr>"
      and v1: "v1 = ex_vm\<lparr>cmpRoot := VObj 10\<rparr>"
    using lazy_objects_stable [where w = ex_world and v = ex_vm] u n by simp
  have s1: "\<forall>w' v'. cmpRoot v' = cmpRoot v1 \<longrightarrow> get_root w' v' = (Returned (VObj 10), w', v')"
    using lazy_objects_stable [where w = ex_world and v = ex_vm] g1 by simp
  have u1: "isUndefined (cmpState v1)" "isUndefined (classListObj v1)" "nextRef w1 = 11"
    using u by (simp_all add: v1 w1 isUndefined_def)
  obtain w2 v2 where g2: "get_state w1 v1 = (Returned (VProxy 11), w2, v2)"
      and n2: "nextRef w2 = 12" and c2: "classListObj v2 = classListObj v1"
      and k2: "cmpRoot v2 = cmpRoot v1"
    using lazy_objects_stable [where w = w1 and v = v1] u1 by simp
  have s2: "\<forall>w' v'. cmpState v' = cmpState v2 \<longrightarrow> get_state w' v' = (Returned (VProxy 11), w', v')"
    using lazy_objects_stable [where w = w1 and v = v1] g2 by simp
  have u2: "isUndefined (classListObj v2)"
    using u1 c2 by simp
  obtain w3 v3 where g3: "get_classList w2 v2 = (Returned (VObj 13), w3, v3)"
      and k3: "cmpRoot v3 = cmpRoot v2" "cmpState v3 = cmpState v2"
    using lazy_objects_stable [where w = w2 and v = v2] u2 n2 by (simp add: eval_nat_numeral)
  have s3: "\<forall>w' v'. classListObj v' = classListObj v3 \<longrightarrow>
      get_classList w' v' = (Returned (VObj 13), w', v')"
    using lazy_objects_stable [where w = w2 and v = v2] g3 by simp
  have h: "heap w1 10 = Some (Instance ''Root'')"
    by (simp add: w1)
  show ?thesis
    using u g1 g2 g3 s1 s2 s3 k2 k3 h by simp
qed

section \<open>Wired properties and state\<close>

text \<open>
  C5. Assigning an array or a value that is not observable to a wired property, or to
  \<open>state\<close>, raises a failure, and the view-model and the world (so the backing store)
  are left as they were.
\<close>

theorem wired_and_state_reject_non_observable:
  "isArray w x \<or> \<not> isObservable w x \<Longrightarrow>
     wired_setter name x w v = (Threw (AssertError (MsgWiredFail (uid v) name)), w, v)
     \<and> set_state x w v = (Threw (AssertError (MsgStateFail (uid v) x)), w, v)"
  by (auto simp: wired_setter_def set_state_def Let_def)

theorem wired_and_state_reject_non_observable_witness:
  "isArray ex_world (VObj 6) \<and> \<not> isObservable ex_world (VNum 3)
   \<and> wired_setter ''data'' (VObj 6) ex_world ex_vm
        = (Threw (AssertError (MsgWiredFail 1 ''data'')), ex_world, ex_vm)
   \<and> set_state (VObj 6) ex_world ex_vm
        = (Threw (AssertError (MsgStateFail 1 (VObj 6))), ex_world, ex_vm)
   \<and> wired_setter ''data'' (VNum 3) ex_world ex_vm
        = (Threw (AssertError (MsgWiredFail 1 ''data'')), ex_world, ex_vm)
   \<and> set_state (VNum 3) ex_world ex_vm
        = (Threw (AssertError (MsgStateFail 1 (VNum 3))), ex_world, ex_vm)"
proof -
  have a: "isArray ex_world (VObj 6)"
    by (simp add: isArray_def ex_world_def)
  have b: "\<not> isObservable ex_world (VNum 3)"
    by (simp add: isObservable_def)
  have u: "uid ex_vm = 1"
    by (simp add: ex_vm_def)
  show ?thesis
    using a b u
      wired_and_state_reject_non_observable [of ex_world "VObj 6" "''data''" ex_vm]
      wired_and_state_reject_non_observable [of ex_world "VNum 3" "''data''" ex_vm]
    by simp
qed

text \<open>
  C2, evaluated on the code. While the rendering flag is set, assigning the observable
  record \<open>{a: 1}\<close> to \<open>state\<close> returns normally and replaces the stored state, where the
  setter of \<open>tabIndex\<close> in the same prototype refuses the write with "The render phase
  must have no side effects on the state of any component".
\<close>

theorem state_write_while_rendering:
  "isRendering (ex_world\<lparr>isRendering := True, vmBeingRendered := Some 1, vmBeingConstructed := None\<rparr>)
   \<and> set_state (VObj 5)
        (ex_world\<lparr>isRendering := True, vmBeingRendered := Some 1, vmBeingConstructed := None\<rparr>) ex_vm
      = (Returned VUndefined,
         ex_world\<lparr>isRendering := True, vmBeingRendered := Some 1, vmBeingConstructed := None\<rparr>,
         ex_vm\<lparr>cmpState := VProxy 5\<rparr>)
   \<and> cmpState ex_vm = VUndefined
   \<and> set_tabIndex 3
        (ex_world\<lparr>isRendering := True, vmBeingRendered := Some 1, vmBeingConstructed := None\<rparr>) ex_vm
      = (Threw (AssertError (MsgTabIndexRendering 3 (Some 1))),
         ex_world\<lparr>isRendering := True, vmBeingRendered := Some 1, vmBeingConstructed := None\<rparr>,
         ex_vm)"
  by (simp add: set_state_def set_tabIndex_def isArray_def isObservable_def getReactiveProxy_def
      ex_world_def ex_vm_def)

section \<open>Queries across the boundary\<close>

lemma first_passed_find: "first_passed p ns = List.find p ns"
  by (induction ns) simp_all

lemma first_passed_None: "first_passed p ns = None \<longleftrightarrow> (\<forall>n \<in> set ns. \<not> p n)"
  by (induction ns) simp_all

lemma first_passed_Some:
  "first_passed p ns = Some n \<longleftrightarrow>
     (\<exists>i < length ns. ns ! i = n \<and> p n \<and> (\<forall>j < i. \<not> p (ns ! j)))"
  by (auto simp: first_passed_find find_Some_iff)

lemma get_root_Returned: "\<exists>x w1 v1. get_root w v = (Returned x, w1, v1)"
  by (simp add: get_root_def new_instance_def)

text \<open>
  C3. Once the view-model is constructed (before that its host element has no children,
  and both queries are refused), \<open>querySelectorAll\<close> returns, through \<open>pierce\<close>, exactly
  the nodes of the native query that were passed into the view-model, in their order, and
  \<open>querySelector\<close> returns, through \<open>pierce\<close>, the first of them, or null when the query
  finds no node that was passed in.
\<close>

theorem queries_return_passed_in_nodes:
  assumes "\<not> isBeingConstructed w v"
  shows "(case querySelectorAll D sel w v of (r, w1, v1) \<Rightarrow>
            r = Returned (pierce D v1
                  (TList (filter (wasNodePassedIntoVM D v) (elmQuerySelectorAll D v sel)))))
       \<and> (case querySelector D sel w v of (r, w1, v1) \<Rightarrow>
            r = Returned (map_option (\<lambda>n. pierce D v1 (TNode n))
                  (List.find (wasNodePassedIntoVM D v) (elmQuerySelectorAll D v sel))))
       \<and> (fst (querySelector D sel w v) = Returned None \<longleftrightarrow>
            (\<forall>n \<in> set (elmQuerySelectorAll D v sel). \<not> wasNodePassedIntoVM D v n))"
proof -
  obtain x w1 v1 where g: "get_root w v = (Returned x, w1, v1)"
    using get_root_Returned by blast
  have a: "case querySelectorAll D sel w v of (r, w1, v1) \<Rightarrow>
            r = Returned (pierce D v1
                  (TList (filter (wasNodePassedIntoVM D v) (elmQuerySelectorAll D v sel))))"
    using assms g by (simp add: querySelectorAll_def Let_def)
  have b: "case querySelector D sel w v of (r, w1, v1) \<Rightarrow>
            r = Returned (map_option (\<lambda>n. pierce D v1 (TNode n))
                  (List.find (wasNodePassedIntoVM D v) (elmQuerySelectorAll D v sel)))"
    using assms g by (simp add: querySelector_def first_passed_find split: option.splits)
  have c: "fst (querySelector D sel w v) = Returned None \<longleftrightarrow>
            (\<forall>n \<in> set (elmQuerySelectorAll D v sel). \<not> wasNodePassedIntoVM D v n)"
    using assms g
    by (auto simp: querySelector_def first_passed_None [symmetric] split: option.splits)
  from a b c show ?thesis by blast
qed

theorem queries_return_passed_in_nodes_witness:
  "\<not> isBeingConstructed (ex_world\<lparr>vmBeingConstructed := None\<rparr>) ex_vm
   \<and> fst (querySelectorAll ex_dom ''p'' (ex_world\<lparr>vmBeingConstructed := None\<rparr>) ex_vm)
       = Returned (TList [7])
   \<and> fst (querySelector ex_dom ''p'' (ex_world\<lparr>vmBeingConstructed := None\<rparr>) ex_vm)
       = Returned (Some (TNode 7))
   \<and> fst (querySelector ex_dom ''q'' (ex_world\<lparr>vmBeingConstructed := None\<rparr>) ex_vm)
       = Returned None"
proof -
  have a: "\<not> isBeingConstructed (ex_world\<lparr>vmBeingConstructed := None\<rparr>) ex_vm"
    by (simp add: isBeingConstructed_def)
  note t = queries_return_passed_in_nodes [OF a, of ex_dom "''p''"]
  note u = queries_return_passed_in_nodes [OF a, of ex_dom "''q''"]
  show ?thesis
    using a t u by (auto simp: ex_dom_def split: prod.splits)
qed

section \<open>getAttribute\<close>

text \<open>
  C8, as the code has it. With no argument \<open>getAttribute\<close> throws a TypeError; with an
  empty attribute name it returns null; with a name whose property name is a declared
  public property it throws a ReferenceError; with any other name, provided it is not
  one the attributes object inherits through its prototype chain, it returns the
  normalised value of that attribute when the compiled attributes have it, and the
  normalised null otherwise, and leaves the view-model as it was.
\<close>

theorem getAttribute_cases:
  "getAttribute U [] w v = (Threw (TypeError (MsgGetAttributeArity (uid v))), w, v)
   \<and> getAttribute U ([] # rest) w v = (Returned VNull, w, v)
   \<and> (a \<noteq> [] \<and> getPropNameFromAttrName U a \<in> publicProps v \<longrightarrow>
        getAttribute U (a # rest) w v
          = (Threw (ReferenceError (MsgAttrIsPublicProp (uid v) a (getPropNameFromAttrName U a))),
             w, v))
   \<and> (a \<noteq> [] \<and> getPropNameFromAttrName U a \<notin> publicProps v
        \<and> (\<forall>m. attrs v = Some m \<longrightarrow> inheritedAttrs m a = None) \<longrightarrow>
        fst (getAttribute U (a # rest) w v)
          = Returned (toAttributeValue U
              (case attrs v of None \<Rightarrow> VNull
               | Some m \<Rightarrow> (case ownAttrs m a of Some x \<Rightarrow> x | None \<Rightarrow> VNull)))
        \<and> snd (snd (getAttribute U (a # rest) w v)) = v)"
  by (auto simp: getAttribute_def truthy_def Let_def attr_in_def attr_read_def
      split: option.splits)

theorem getAttribute_cases_witness:
  "''title'' \<noteq> [] \<and> getPropNameFromAttrName ex_utils ''title'' \<notin> publicProps ex_vm
   \<and> map_option (\<lambda>m. inheritedAttrs m ''title'') (attrs ex_vm) = Some None
   \<and> map_option (\<lambda>m. inheritedAttrs m ''lang'') (attrs ex_vm) = Some None
   \<and> fst (getAttribute ex_utils [''title''] ex_world ex_vm) = Returned (VStr ''hello'')
   \<and> fst (getAttribute ex_utils [''lang''] ex_world ex_vm) = Returned VNull
   \<and> ''label'' \<noteq> [] \<and> getPropNameFromAttrName ex_utils ''label'' \<in> publicProps ex_vm
   \<and> getAttribute ex_utils [''label''] ex_world ex_vm
       = (Threw (ReferenceError (MsgAttrIsPublicProp 1 ''label'' ''label'')), ex_world, ex_vm)
   \<and> getAttribute ex_utils [] ex_world ex_vm
       = (Threw (TypeError (MsgGetAttributeArity 1)), ex_world, ex_vm)
   \<and> getAttribute ex_utils [''''] ex_world ex_vm = (Returned VNull, ex_world, ex_vm)"
proof -
  have a: "''title'' \<noteq> [] \<and> getPropNameFromAttrName ex_utils ''title'' \<notin> publicProps ex_vm
      \<and> (\<forall>m. attrs ex_vm = Some m \<longrightarrow> inheritedAttrs m ''title'' = None)"
    by (simp add: ex_utils_def ex_vm_def)
  have b: "''lang'' \<noteq> [] \<and> getPropNameFromAttrName ex_utils ''lang'' \<notin> publicProps ex_vm
      \<and> (\<forall>m. attrs ex_vm = Some m \<longrightarrow> inheritedAttrs m ''lang'' = None)"
    by (simp add: ex_utils_def ex_vm_def)
  have c: "''label'' \<noteq> [] \<and> getPropNameFromAttrName ex_utils ''label'' \<in> publicProps ex_vm"
    by (simp add: ex_utils_def ex_vm_def)
  have e: "toAttributeValue ex_utils = (\<lambda>x. x)" "uid ex_vm = 1"
      "getPropNameFromAttrName ex_utils = (\<lambda>s. s)"
      "attrs ex_vm = Some \<lparr>ownAttrs = [''title'' \<mapsto> VStr ''hello'', ''label'' \<mapsto> VStr ''x''],
                  inheritedAttrs = [''constructor'' \<mapsto> VObj 9]\<rparr>"
    by (simp_all add: ex_utils_def ex_vm_def)
  note t0 = getAttribute_cases [of ex_utils ex_world ex_vm "[]" "''title''"]
  note t1 = t0 [THEN conjunct2, THEN conjunct2, THEN conjunct2, rule_format, OF a]
  note t2 = getAttribute_cases [of ex_utils ex_world ex_vm "[]" "''lang''",
      THEN conjunct2, THEN conjunct2, THEN conjunct2, rule_format, OF b]
  note t3 = getAttribute_cases [of ex_utils ex_world ex_vm "[]" "''label''",
      THEN conjunct2, THEN conjunct2, THEN conjunct1, rule_format, OF c]
  show ?thesis
    using a b c t0 t1 t2 t3 by (simp add: e)
qed

text \<open>
  The lookup \<open>attrName in attrs\<close> follows the prototype chain: for the inherited name
  \<open>constructor\<close> the call returns the inherited member.
\<close>

lemma getAttribute_inherited_name:
  "getAttribute ex_utils [''constructor''] ex_world ex_vm = (Returned (VObj 9), ex_world, ex_vm)"
  by (simp add: getAttribute_def truthy_def Let_def attr_in_def attr_read_def ex_utils_def
      ex_vm_def)

text \<open>
  C8 as stated promises the attribute's value for every name present in the compiled
  attributes. The attribute \<open>label\<close> is present, and is also a declared public property:
  the call throws instead of returning its value.
\<close>

theorem getAttribute_public_property_counterexample:
  "(case attrs ex_vm of Some m \<Rightarrow> ownAttrs m ''label'' = Some (VStr ''x'') | None \<Rightarrow> False)
   \<and> fst (getAttribute ex_utils [''label''] ex_world ex_vm)
        \<noteq> Returned (toAttributeValue ex_utils (VStr ''x''))
   \<and> (\<exists>e. fst (getAttribute ex_utils [''label''] ex_world ex_vm) = Threw e)"
  by (simp add: getAttribute_def truthy_def Let_def ex_utils_def ex_vm_def)

section \<open>Disabled global accessors\<close>

lemma disabled_names_set:
  "set (disabled_names defined ns) = set ns - set defined"
  by (induction ns arbitrary: defined) auto

text \<open>
  C9. For a name of the metadata table that the prototype does not already expose,
  reading the property returns undefined, appends exactly one entry to the log (the
  joined guidance lines, through \<open>console.log\<close>) and does not throw.
\<close>

theorem disabled_global_accessor:
  assumes "map_of (GlobalHTMLProperties U) name = Some g"
    and "name \<notin> set prototype_names"
  shows "get_global_property U name w v
           = Some (Returned VUndefined,
               w\<lparr>log := log w @ [ConsoleLog (MsgGlobalDisabled (global_lines name (uid v) g))]\<rparr>,
               v)"
proof -
  from assms(1) have "name \<in> set (map fst (GlobalHTMLProperties U))"
    by (metis map_of_SomeD image_eqI fst_conv set_map)
  with assms(2) have "name \<in> set (disabled_names prototype_names (map fst (GlobalHTMLProperties U)))"
    by (simp add: disabled_names_set)
  then show ?thesis
    using assms(1) by (simp add: get_global_property_def global_getter_def console_log_def Let_def)
qed

theorem disabled_global_accessor_witness:
  "map_of (GlobalHTMLProperties ex_utils) ''dropzone''
     = Some \<lparr>attribute = Some ''dropzone'', error = None, readOnly = True, experimental = True\<rparr>
   \<and> ''dropzone'' \<notin> set prototype_names
   \<and> get_global_property ex_utils ''dropzone'' ex_world ex_vm
         = Some (Returned VUndefined,
             ex_world\<lparr>log := [ConsoleLog (MsgGlobalDisabled
               [LDisabled ''dropzone'' 1, LExperimental ''dropzone'' ''dropzone'', LReadOnly,
                LInstead ''dropzone'', LUseGetAttribute ''dropzone'',
                LDeclareObserved ''dropzone''])]\<rparr>,
             ex_vm)"
proof -
  have a: "map_of (GlobalHTMLProperties ex_utils) ''dropzone''
     = Some \<lparr>attribute = Some ''dropzone'', error = None, readOnly = True, experimental = True\<rparr>"
    by (simp add: ex_utils_def)
  have b: "''dropzone'' \<notin> set prototype_names"
    by (simp add: prototype_names_def)
  show ?thesis
    using a b disabled_global_accessor [OF a b, of ex_world ex_vm]
    by (simp add: global_lines_def truthy_def interp_def ex_vm_def ex_world_def)
qed

section \<open>The watcher\<close>

lemma schedule_fields [simp]:
  "heap (schedule c w) = heap w" "listeners (schedule c w) = listeners w"
  "isRendering (schedule c w) = isRendering w" "vmBeingRendered (schedule c w) = vmBeingRendered w"
  by (simp_all add: schedule_def)

lemma fold_schedule_fields [simp]:
  "heap (fold schedule cs w) = heap w" "listeners (fold schedule cs w) = listeners w"
  "isRendering (fold schedule cs w) = isRendering w"
  "vmBeingRendered (fold schedule cs w) = vmBeingRendered w"
  by (induction cs arbitrary: w) simp_all

lemma set_scheduled_fold:
  "set (scheduled (fold schedule cs w)) = set (scheduled w) \<union> set cs"
  by (induction cs arbitrary: w) (auto simp: schedule_def)

lemma count_scheduled_fold:
  "count_list (scheduled (fold schedule cs w)) c =
     (if c \<in> set (scheduled w) then count_list (scheduled w) c
      else if c \<in> set cs then 1 else 0)"
proof (induction cs arbitrary: w)
  case Nil
  then show ?case by (simp add: count_list_0_iff)
next
  case (Cons a cs)
  then show ?case by (auto simp: schedule_def count_list_0_iff)
qed

lemma notifyListeners_fields [simp]:
  "heap (notifyListeners r k w) = heap w" "listeners (notifyListeners r k w) = listeners w"
  "isRendering (notifyListeners r k w) = isRendering w"
  "vmBeingRendered (notifyListeners r k w) = vmBeingRendered w"
  by (simp_all add: notifyListeners_def)

lemma set_scheduled_notify:
  "set (scheduled (notifyListeners r k w)) = set (scheduled w) \<union> set (listeners w (r, k))"
  by (simp add: notifyListeners_def set_scheduled_fold)

lemma count_scheduled_notify:
  "count_list (scheduled (notifyListeners r k w)) c =
     (if c \<in> set (scheduled w) then count_list (scheduled w) c
      else if c \<in> set (listeners w (r, k)) then 1 else 0)"
  by (simp add: notifyListeners_def count_scheduled_fold)

lemma subscribe_listeners:
  "set (listeners (subscribeToSetHook (Some c) r k w) (r, k)) = insert c (set (listeners w (r, k)))"
  "p \<noteq> (r, k) \<Longrightarrow> listeners (subscribeToSetHook (Some c) r k w) p = listeners w p"
  "scheduled (subscribeToSetHook x r k w) = scheduled w"
  by (auto simp: subscribeToSetHook_def split: option.splits)

lemma subscribe_empty:
  "listeners w (r, k) = [] \<Longrightarrow> listeners (subscribeToSetHook (Some c) r k w) (r, k) = [c]"
  by (simp add: subscribeToSetHook_def)

text \<open>
  C6, as the code has it. For a public property without an author-defined getter, on a
  view-model that is not being constructed: a read made while the rendering flag is set
  subscribes the context being rendered to the pair of the public-props store and the
  property name, and returns the stored value; a later notify on that pair, outside a
  render, schedules the subscribers of the pair, the new one among them, and exactly that
  one when there was no other; a notify on another key of the store does not schedule it.
  A read made outside a render returns the stored value and changes nothing.
\<close>

theorem public_read_subscribes_while_rendering:
  assumes "\<not> isBeingConstructed w v" and "origGetter d = None"
  shows "(isRendering w \<and> vmBeingRendered w = Some c \<longrightarrow>
           (case public_getter d w v of (r, w1, v1) \<Rightarrow>
              r = Returned (heap_get w (cmpProps v) (propName d)) \<and> v1 = v
              \<and> set (listeners w1 (cmpProps v, propName d))
                  = insert c (set (listeners w (cmpProps v, propName d)))
              \<and> (\<forall>p. p \<noteq> (cmpProps v, propName d) \<longrightarrow> listeners w1 p = listeners w p)
              \<and> set (scheduled (notifyListeners (cmpProps v) (propName d)
                       (w1\<lparr>isRendering := False, vmBeingRendered := None\<rparr>)))
                  = set (scheduled w) \<union> insert c (set (listeners w (cmpProps v, propName d)))
              \<and> (listeners w (cmpProps v, propName d) = [] \<and> scheduled w = [] \<longrightarrow>
                   scheduled (notifyListeners (cmpProps v) (propName d)
                       (w1\<lparr>isRendering := False, vmBeingRendered := None\<rparr>)) = [c])
              \<and> (\<forall>k. k \<noteq> propName d \<and> c \<notin> set (listeners w (cmpProps v, k))
                       \<and> c \<notin> set (scheduled w) \<longrightarrow>
                   c \<notin> set (scheduled (notifyListeners (cmpProps v) k
                       (w1\<lparr>isRendering := False, vmBeingRendered := None\<rparr>))))))
       \<and> (\<not> isRendering w \<longrightarrow>
            public_getter d w v = (Returned (heap_get w (cmpProps v) (propName d)), w, v))"
proof (intro conjI impI)
  assume r: "isRendering w \<and> vmBeingRendered w = Some c"
  let ?s = "cmpProps v" and ?k = "propName d"
  let ?w1 = "subscribeToSetHook (Some c) ?s ?k w"
  let ?w2 = "?w1\<lparr>isRendering := False, vmBeingRendered := None\<rparr>"
  have g: "public_getter d w v = (Returned (heap_get w ?s ?k), ?w1, v)"
    using assms r by (simp add: public_getter_def heap_get_def subscribeToSetHook_def)
  have l: "listeners ?w2 = listeners ?w1" "scheduled ?w2 = scheduled w"
    by (simp_all add: subscribe_listeners)
  have a: "set (listeners ?w1 (?s, ?k)) = insert c (set (listeners w (?s, ?k)))"
    by (rule subscribe_listeners)
  have b: "\<forall>p. p \<noteq> (?s, ?k) \<longrightarrow> listeners ?w1 p = listeners w p"
    by (simp add: subscribe_listeners)
  have n: "set (scheduled (notifyListeners ?s ?k ?w2))
             = set (scheduled w) \<union> insert c (set (listeners w (?s, ?k)))"
    by (simp only: set_scheduled_notify l a)
  have e: "listeners w (?s, ?k) = [] \<and> scheduled w = [] \<longrightarrow>
             scheduled (notifyListeners ?s ?k ?w2) = [c]"
    by (simp add: notifyListeners_def l subscribe_empty schedule_def)
  have u: "\<forall>k. k \<noteq> ?k \<and> c \<notin> set (listeners w (?s, k)) \<and> c \<notin> set (scheduled w) \<longrightarrow>
             c \<notin> set (scheduled (notifyListeners ?s k ?w2))"
    by (simp add: set_scheduled_notify l subscribe_listeners)
  show "case public_getter d w v of (r, w1, v1) \<Rightarrow>
              r = Returned (heap_get w (cmpProps v) (propName d)) \<and> v1 = v
              \<and> set (listeners w1 (cmpProps v, propName d))
                  = insert c (set (listeners w (cmpProps v, propName d)))
              \<and> (\<forall>p. p \<noteq> (cmpProps v, propName d) \<longrightarrow> listeners w1 p = listeners w p)
              \<and> set (scheduled (notifyListeners (cmpProps v) (propName d)
                       (w1\<lparr>isRendering := False, vmBeingRendered := None\<rparr>)))
                  = set (scheduled w) \<union> insert c (set (listeners w (cmpProps v, propName d)))
              \<and> (listeners w (cmpProps v, propName d) = [] \<and> scheduled w = [] \<longrightarrow>
                   scheduled (notifyListeners (cmpProps v) (propName d)
                       (w1\<lparr>isRendering := False, vmBeingRendered := None\<rparr>)) = [c])
              \<and> (\<forall>k. k \<noteq> propName d \<and> c \<notin> set (listeners w (cmpProps v, k))
                       \<and> c \<notin> set (scheduled w) \<longrightarrow>
                   c \<notin> set (scheduled (notifyListeners (cmpProps v) k
                       (w1\<lparr>isRendering := False, vmBeingRendered := None\<rparr>))))"
    unfolding g prod.case using a b n e u by blast
next
  assume "\<not> isRendering w"
  then show "public_getter d w v = (Returned (heap_get w (cmpProps v) (propName d)), w, v)"
    using assms by (simp add: public_getter_def)
qed

theorem public_read_subscribes_while_rendering_witness:
  "\<not> isBeingConstructed ex_render ex_vm \<and> origGetter ex_plain = None
   \<and> isRendering ex_render \<and> vmBeingRendered ex_render = Some 2
   \<and> (case public_getter ex_plain ex_render ex_vm of (r, w1, v1) \<Rightarrow>
         r = Returned (VStr ''hi'')
         \<and> set (listeners w1 (0, ''label'')) = {2}
         \<and> scheduled (notifyListeners 0 ''label''
              (w1\<lparr>isRendering := False, vmBeingRendered := None\<rparr>)) = [2]
         \<and> 2 \<notin> set (scheduled (notifyListeners 0 ''other''
              (w1\<lparr>isRendering := False, vmBeingRendered := None\<rparr>))))
   \<and> \<not> isRendering (ex_render\<lparr>isRendering := False\<rparr>)
   \<and> public_getter ex_plain (ex_render\<lparr>isRendering := False\<rparr>) ex_vm
       = (Returned (VStr ''hi''), ex_render\<lparr>isRendering := False\<rparr>, ex_vm)"
proof -
  have a: "\<not> isBeingConstructed ex_render ex_vm"
    by (simp add: isBeingConstructed_def ex_render_def)
  have a': "\<not> isBeingConstructed (ex_render\<lparr>isRendering := False\<rparr>) ex_vm"
    by (simp add: isBeingConstructed_def ex_render_def)
  have b: "origGetter ex_plain = None"
    by (simp add: ex_plain_def)
  have c: "isRendering ex_render \<and> vmBeingRendered ex_render = Some 2"
    by (simp add: ex_render_def)
  have d: "\<not> isRendering (ex_render\<lparr>isRendering := False\<rparr>)"
    by simp
  have e: "cmpProps ex_vm = 0" "propName ex_plain = ''label''"
      "listeners ex_render = (\<lambda>_. [])" "scheduled ex_render = []"
    by (simp_all add: ex_vm_def ex_plain_def ex_render_def ex_world_def)
  have h: "heap_get ex_render 0 ''label'' = VStr ''hi''"
      "heap_get (ex_render\<lparr>isRendering := False\<rparr>) 0 ''label'' = VStr ''hi''"
    by (simp_all add: heap_get_def ex_render_def)
  note t1 = public_read_subscribes_while_rendering [OF a b, of 2, THEN conjunct1, rule_format, OF c]
  note t2 = public_read_subscribes_while_rendering [OF a' b, of 2, THEN conjunct2, rule_format, OF d]
  show ?thesis
    using a b c d t1 t2 by (auto simp: e h split: prod.splits)
qed

text \<open>
  C6 as stated covers every read made while the rendering flag is set. On a view-model
  that is still being constructed the getter stops at its first check: the read returns
  undefined, not the stored value, and nothing is subscribed, so a notify schedules
  nobody.
\<close>

theorem public_read_during_construction_render_counterexample:
  "isRendering (ex_render\<lparr>vmBeingConstructed := Some 1\<rparr>)
   \<and> vmBeingRendered (ex_render\<lparr>vmBeingConstructed := Some 1\<rparr>) = Some 2
   \<and> origGetter ex_plain = None
   \<and> heap_get (ex_render\<lparr>vmBeingConstructed := Some 1\<rparr>) (cmpProps ex_vm) ''label'' = VStr ''hi''
   \<and> (case public_getter ex_plain (ex_render\<lparr>vmBeingConstructed := Some 1\<rparr>) ex_vm of
         (r, w1, v1) \<Rightarrow>
           r = Returned VUndefined
           \<and> listeners w1 (cmpProps ex_vm, ''label'') = []
           \<and> scheduled (notifyListeners (cmpProps ex_vm) ''label'' w1) = [])"
  by (simp add: public_getter_def isBeingConstructed_def logError_def notifyListeners_def
      heap_get_def ex_render_def ex_world_def ex_vm_def ex_plain_def)

section \<open>Wired round trip\<close>

lemma heap_set_fields [simp]:
  "listeners (heap_set r k x w) = listeners w" "scheduled (heap_set r k x w) = scheduled w"
  "isRendering (heap_set r k x w) = isRendering w"
  "vmBeingRendered (heap_set r k x w) = vmBeingRendered w"
  by (simp_all add: heap_set_def split: option.splits hobj.splits)

lemma heap_set_other: "s \<noteq> r \<Longrightarrow> heap (heap_set s k x w) r = heap w r"
  by (simp add: heap_set_def split: option.splits hobj.splits)

lemma heap_set_record:
  "heap w s = Some (Record g) \<Longrightarrow> heap (heap_set s k x w) s = Some (Record (g(k \<mapsto> x)))"
  by (simp add: heap_set_def)

lemma wired_setter_stored:
  assumes "cmpWired v = Some s" and "heap w s = Some (Record g)" and "s \<noteq> r"
    and "heap w r = Some (Record f)" and "x = VObj r \<or> x = VProxy r"
  shows "wired_setter name x w v
           = (Returned VUndefined,
              notifyListeners s name (notifyListeners s name (heap_set s name (VProxy r) w)), v)"
  using assms
  by (auto simp: wired_setter_def Let_def isObservable_def isArray_def lazy_cmpWired_def
      reactive_set_def getReactiveProxy_def)

lemma wired_setter_fresh:
  assumes "cmpWired v = None" and "heap w r = Some (Record f)" and "x = VObj r \<or> x = VProxy r"
  shows "wired_setter name x w v
           = (Returned VUndefined,
              notifyListeners (nextRef w) name (notifyListeners (nextRef w) name
                (heap_set (nextRef w) name (VProxy r) (snd (create_null w)))),
              v\<lparr>cmpWired := Some (nextRef w)\<rparr>)"
  using assms
  by (auto simp: wired_setter_def Let_def isObservable_def isArray_def lazy_cmpWired_def
      reactive_set_def getReactiveProxy_def create_null_def)

lemma wired_getter_after:
  assumes "cmpWired v = Some s" and "heap w s = Some (Record g)" and "g name = Some (VProxy r)"
    and "heap w r = Some (Record f)"
  shows "fst (wired_getter name w v) = Returned (VProxy r)"
    and "snd (snd (wired_getter name w v)) = v"
    and "heap (fst (snd (wired_getter name w v))) = heap w"
  using assms
  by (auto simp: wired_getter_def lazy_cmpWired_def reactive_get_def Let_def heap_get_def
      isObservable_def getReactiveProxy_def)

text \<open>
  C4. Assigning an observable object that is not an array (a record of the heap, or its
  proxy) to a wired property returns normally; the getter then returns the proxy of that
  object, whose fields are the ones assigned; and a context that had subscribed to the
  wired store under that key, and was not yet scheduled, is scheduled exactly once by
  the write. The wired store is a record other than the assigned object, or is created
  by the write.
\<close>

theorem wired_round_trip:
  assumes x: "x = VObj r \<or> x = VProxy r" and r: "heap w r = Some (Record f)"
    and wf: "case cmpWired v of
               Some s \<Rightarrow> s \<noteq> r \<and> (\<exists>g. heap w s = Some (Record g))
             | None \<Rightarrow> heap w (nextRef w) = None"
  shows "case wired_setter name x w v of (r1, w1, v1) \<Rightarrow>
      r1 = Returned VUndefined
      \<and> (\<exists>s. cmpWired v1 = Some s \<and> s = (case cmpWired v of Some t \<Rightarrow> t | None \<Rightarrow> nextRef w)
           \<and> (case wired_getter name w1 v1 of (r2, w2, v2) \<Rightarrow>
                 r2 = Returned (VProxy r) \<and> v2 = v1 \<and> heap w2 r = Some (Record f))
           \<and> (\<forall>c. c \<in> set (listeners w (s, name)) \<and> c \<notin> set (scheduled w) \<longrightarrow>
                 count_list (scheduled w1) c = 1))"
proof (cases "cmpWired v")
  case None
  let ?s = "nextRef w"
  let ?w0 = "snd (create_null w)"
  let ?w1 = "notifyListeners ?s name (notifyListeners ?s name (heap_set ?s name (VProxy r) ?w0))"
  let ?v1 = "v\<lparr>cmpWired := Some ?s\<rparr>"
  from None wf r have ne: "?s \<noteq> r" by auto
  have st: "wired_setter name x w v = (Returned VUndefined, ?w1, ?v1)"
    using wired_setter_fresh [OF None r x] .
  have h0: "heap ?w0 ?s = Some (Record Map.empty)" "heap ?w0 r = Some (Record f)"
      "listeners ?w0 = listeners w" "scheduled ?w0 = scheduled w"
    using ne r by (simp_all add: create_null_def)
  have hs: "heap ?w1 ?s = Some (Record (Map.empty(name \<mapsto> VProxy r)))"
    using h0 by (simp add: heap_set_record)
  have hr: "heap ?w1 r = Some (Record f)"
    using h0 ne by (simp add: heap_set_other)
  have cw: "cmpWired ?v1 = Some ?s" by simp
  have g: "case wired_getter name ?w1 ?v1 of (r2, w2, v2) \<Rightarrow>
             r2 = Returned (VProxy r) \<and> v2 = ?v1 \<and> heap w2 r = Some (Record f)"
    using wired_getter_after [OF cw hs _ hr, of name] hr
    by (simp split: prod.splits) (metis fst_conv snd_conv)
  have n: "\<forall>c. c \<in> set (listeners w (?s, name)) \<and> c \<notin> set (scheduled w) \<longrightarrow>
             count_list (scheduled ?w1) c = 1"
    by (simp add: count_scheduled_notify set_scheduled_notify h0)
  show ?thesis
    unfolding st prod.case using None g n by simp
next
  case (Some s)
  with wf obtain g where ne: "s \<noteq> r" and sg: "heap w s = Some (Record g)" by auto
  let ?w1 = "notifyListeners s name (notifyListeners s name (heap_set s name (VProxy r) w))"
  have st: "wired_setter name x w v = (Returned VUndefined, ?w1, v)"
    using wired_setter_stored [OF Some sg ne r x] .
  have hs: "heap ?w1 s = Some (Record (g(name \<mapsto> VProxy r)))"
    using sg by (simp add: heap_set_record)
  have hr: "heap ?w1 r = Some (Record f)"
    using r ne by (simp add: heap_set_other)
  have gt: "case wired_getter name ?w1 v of (r2, w2, v2) \<Rightarrow>
             r2 = Returned (VProxy r) \<and> v2 = v \<and> heap w2 r = Some (Record f)"
    using wired_getter_after [OF Some hs _ hr, of name] hr
    by (simp split: prod.splits) (metis fst_conv snd_conv)
  have n: "\<forall>c. c \<in> set (listeners w (s, name)) \<and> c \<notin> set (scheduled w) \<longrightarrow>
             count_list (scheduled ?w1) c = 1"
    by (simp add: count_scheduled_notify set_scheduled_notify)
  show ?thesis
    unfolding st prod.case using Some gt n by simp
qed

theorem wired_round_trip_witness:
  "heap ex_subscribed 5 = Some (Record [''a'' \<mapsto> VNum 1])
   \<and> cmpWired ex_wired_vm = Some 3 \<and> 3 \<noteq> (5::nat)
   \<and> heap ex_subscribed 3 = Some (Record Map.empty)
   \<and> 2 \<in> set (listeners ex_subscribed (3, ''data'')) \<and> 2 \<notin> set (scheduled ex_subscribed)
   \<and> (case wired_setter ''data'' (VObj 5) ex_subscribed ex_wired_vm of (r1, w1, v1) \<Rightarrow>
        r1 = Returned VUndefined \<and> cmpWired v1 = Some 3
        \<and> count_list (scheduled w1) 2 = 1
        \<and> (case wired_getter ''data'' w1 v1 of (r2, w2, v2) \<Rightarrow>
              r2 = Returned (VProxy 5) \<and> fst (reactive_get 5 ''a'' w2) = VNum 1))"
proof -
  have r: "heap ex_subscribed 5 = Some (Record [''a'' \<mapsto> VNum 1])"
    by (simp add: ex_subscribed_def ex_world_def)
  have s: "heap ex_subscribed 3 = Some (Record Map.empty)"
    by (simp add: ex_subscribed_def)
  have c: "cmpWired ex_wired_vm = Some 3"
    by (simp add: ex_wired_vm_def)
  have wf: "case cmpWired ex_wired_vm of
               Some s \<Rightarrow> s \<noteq> 5 \<and> (\<exists>g. heap ex_subscribed s = Some (Record g))
             | None \<Rightarrow> heap ex_subscribed (nextRef ex_subscribed) = None"
    using s by (simp add: c)
  have l: "2 \<in> set (listeners ex_subscribed (3, ''data''))" "2 \<notin> set (scheduled ex_subscribed)"
    by (simp_all add: ex_subscribed_def ex_world_def)
  note t = wired_round_trip [of "VObj 5" 5 ex_subscribed "[''a'' \<mapsto> VNum 1]" ex_wired_vm "''data''",
      OF _ r wf]
  have a: "\<And>w2. heap w2 5 = Some (Record [''a'' \<mapsto> VNum 1]) \<Longrightarrow>
             fst (reactive_get 5 ''a'' w2) = VNum 1"
    by (simp add: reactive_get_def Let_def heap_get_def isObservable_def)
  show ?thesis
    using r s c l t by (auto simp: a split: prod.splits)
qed

end
